theory Spec2Isabelle
  imports Main
begin

section \<open>The sidebar container of ng-sidebar\<close>

text \<open>
  The development embeds \<^verbatim>\<open>src/sidebar-container.component.ts\<close>, the class
  \<^verbatim>\<open>SidebarContainer\<close>. Members whose source name starts with an underscore are written
  without it (\<^verbatim>\<open>_isBrowser\<close> is \<open>isBrowser\<close>, \<^verbatim>\<open>_getContentStyles\<close> is
  \<open>getContentStyles\<close>), since an Isabelle name starts with a letter.
\<close>

subsection \<open>Panels\<close>

text \<open>
  Modelled from the spec: the class \<^verbatim>\<open>Sidebar\<close>, which is declared in
  \<^verbatim>\<open>sidebar.component.ts\<close> and is not part of the container's source file. The container
  reads the members below and nothing else, so they are taken as the fields of a record, each one
  free:
  the derived flags \<^verbatim>\<open>_isModeSlide\<close>, \<^verbatim>\<open>_isModePush\<close>, \<^verbatim>\<open>_isModeOver\<close> and
  \<^verbatim>\<open>_isDocked\<close> are fields of their own, not functions of a mode, and the position is
  the string that the code compares with \<^verbatim>\<open>'left'\<close>, \<^verbatim>\<open>'right'\<close>, \<^verbatim>\<open>'top'\<close> and
  \<^verbatim>\<open>'bottom'\<close>. The sizes \<^verbatim>\<open>_width\<close>, \<^verbatim>\<open>_height\<close> and \<^verbatim>\<open>_dockedSize\<close> are sizes
  in pixels and are taken to be natural numbers: a size that is negative, fractional or not a
  number is outside the model. Three fields carry the prefix \<open>sidebar_\<close> because the
  container and the style object have a member of the same name: \<open>sidebar_showBackdrop\<close> is
  \<^verbatim>\<open>sidebar.showBackdrop\<close>, \<open>sidebar_width\<close> is \<^verbatim>\<open>sidebar._width\<close> and
  \<open>sidebar_height\<close> is \<^verbatim>\<open>sidebar._height\<close>.
\<close>

record Sidebar =
  position :: string
  opened :: bool
  dock :: bool
  sidebar_showBackdrop :: bool
  closeOnClickBackdrop :: bool
  isModeSlide :: bool
  isModePush :: bool
  isModeOver :: bool
  isDocked :: bool
  dockedSize :: nat
  sidebar_width :: nat
  sidebar_height :: nat

subsection \<open>Numbers in template literals\<close>

text \<open>
  A template literal converts a number with the language's \<^verbatim>\<open>ToString\<close>, which for a
  natural number below \<open>10 ^ 21\<close> is its decimal numeral.
\<close>

definition digit :: "nat \<Rightarrow> char" where
  "digit d = ''0123456789'' ! d"

fun toString :: "nat \<Rightarrow> string" where
  "toString n = (if n < 10 then [digit n] else toString (n div 10) @ [digit (n mod 10)])"

declare toString.simps [simp del]

subsection \<open>The style computation\<close>

text \<open>
  The variables that the callback of \<^verbatim>\<open>forEach\<close> in \<^verbatim>\<open>_getContentStyles\<close> assigns;
  \<open>top_px\<close> is the variable \<^verbatim>\<open>top\<close>. A style that is \<^verbatim>\<open>null\<close> is \<open>None\<close>.
\<close>

record locals =
  left :: nat
  right :: nat
  top_px :: nat
  bottom :: nat
  transformStyle :: "string option"
  heightStyle :: "string option"
  widthStyle :: "string option"

definition init_locals :: locals where
  "init_locals = \<lparr>left = 0, right = 0, top_px = 0, bottom = 0,
     transformStyle = None, heightStyle = None, widthStyle = None\<rparr>"

definition isLeftOrRight :: "Sidebar \<Rightarrow> bool" where
  "isLeftOrRight sidebar = (position sidebar = ''left'' \<or> position sidebar = ''right'')"

definition isLeftOrTop :: "Sidebar \<Rightarrow> bool" where
  "isLeftOrTop sidebar = (position sidebar = ''left'' \<or> position sidebar = ''top'')"

definition transformDir :: "Sidebar \<Rightarrow> string" where
  "transformDir sidebar = (if isLeftOrRight sidebar then ''X'' else ''Y'')"

definition transformAmt :: "Sidebar \<Rightarrow> string" where
  "transformAmt sidebar =
     (if isLeftOrTop sidebar then '''' else ''-'') @
     toString (if isLeftOrRight sidebar then sidebar_width sidebar else sidebar_height sidebar)"

definition offsetDim :: "Sidebar \<Rightarrow> string" where
  "offsetDim sidebar = ''calc(100% - '' @ toString (dockedSize sidebar) @ ''px''"

definition translate :: "Sidebar \<Rightarrow> string" where
  "translate sidebar =
     ''translate'' @ transformDir sidebar @ ''('' @ transformAmt sidebar @ ''px)''"

text \<open>Lines 141 to 150: the slide mode translates the whole content.\<close>

definition slide_step :: "Sidebar \<Rightarrow> locals \<Rightarrow> locals" where
  "slide_step sidebar v =
     (if isModeSlide sidebar then
        (if opened sidebar then v\<lparr>transformStyle := Some (translate sidebar)\<rparr> else v)
      else v)"

text \<open>Lines 154 to 169: the amount of padding, and the size override of an open slide panel.\<close>

definition paddingAmt :: "Sidebar \<Rightarrow> nat" where
  "paddingAmt sidebar =
     (if isModeSlide sidebar \<and> opened sidebar then 0
      else if isDocked sidebar \<or> (isModeOver sidebar \<and> dock sidebar) then dockedSize sidebar
      else if isLeftOrRight sidebar then sidebar_width sidebar else sidebar_height sidebar)"

definition override_step :: "Sidebar \<Rightarrow> locals \<Rightarrow> locals" where
  "override_step sidebar v =
     (if isModeSlide sidebar \<and> opened sidebar then
        (if isLeftOrRight sidebar then v\<lparr>widthStyle := Some (offsetDim sidebar)\<rparr>
         else v\<lparr>heightStyle := Some (offsetDim sidebar)\<rparr>)
      else v)"

text \<open>Lines 171 to 187: the switch on the position, which has no default case.\<close>

definition switch_position :: "Sidebar \<Rightarrow> locals \<Rightarrow> locals" where
  "switch_position sidebar v =
     (if position sidebar = ''left'' then v\<lparr>left := max (left v) (paddingAmt sidebar)\<rparr>
      else if position sidebar = ''right'' then v\<lparr>right := max (right v) (paddingAmt sidebar)\<rparr>
      else if position sidebar = ''top'' then v\<lparr>top_px := max (top_px v) (paddingAmt sidebar)\<rparr>
      else if position sidebar = ''bottom'' then v\<lparr>bottom := max (bottom v) (paddingAmt sidebar)\<rparr>
      else v)"

text \<open>The callback of \<^verbatim>\<open>forEach\<close> on a panel that is not null.\<close>

definition visit :: "Sidebar \<Rightarrow> locals \<Rightarrow> locals" where
  "visit sidebar v =
     (let v1 = slide_step sidebar v
      in if (isModePush sidebar \<and> opened sidebar) \<or> dock sidebar
         then switch_position sidebar (override_step sidebar v1)
         else v1)"

subsection \<open>The container and its environment\<close>

text \<open>
  A panel is an object, and the container holds references to panels: a reference is an
  address, \<open>None\<close> is \<^verbatim>\<open>null\<close> or \<^verbatim>\<open>undefined\<close>, and the heap gives the fields of
  the panel at an address. The seven event emitters of a panel are kept beside the heap, as the
  list of the handlers subscribed to each; the container subscribes two handlers, which call
  \<^verbatim>\<open>_onToggle\<close> and \<^verbatim>\<open>_markForCheck\<close>.
\<close>

type_synonym ref = nat

datatype signal =
  OnOpenStart | OnOpened | OnCloseStart | OnClosed | OnModeChange | OnPositionChange | OnRerender

datatype handler = CallOnToggle | CallMarkForCheck

text \<open>
  The state holds the fields of the container that its methods read or write
  (\<^verbatim>\<open>_isBrowser\<close>, \<^verbatim>\<open>allowSidebarBackdropControl\<close>, \<^verbatim>\<open>showBackdrop\<close>,
  \<^verbatim>\<open>_sidebars\<close>), the panels, and what the container does to its collaborators:
  \<open>showBackdropChange\<close> lists the values emitted on the output of that name, oldest first;
  \<open>onRegister\<close> counts the callbacks handed to
  \<^verbatim>\<open>SidebarService.onRegister\<close>; \<open>timeouts\<close> counts the callbacks given to
  \<^verbatim>\<open>setTimeout\<close> that have not run yet; \<open>markedForCheck\<close> counts the calls of
  \<^verbatim>\<open>ChangeDetectorRef.markForCheck\<close>. The field \<^verbatim>\<open>_sidebars\<close> is initialised to an
  array and never assigned again, so the test \<^verbatim>\<open>if (this._sidebars)\<close> always succeeds and
  is left out.
\<close>

record world =
  isBrowser :: bool
  allowSidebarBackdropControl :: bool
  showBackdrop :: bool
  sidebars :: "ref option list"
  heap :: "ref \<Rightarrow> Sidebar"
  observers :: "ref \<Rightarrow> signal \<Rightarrow> handler list"
  showBackdropChange :: "bool list"
  onRegister :: nat
  timeouts :: nat
  markedForCheck :: nat

datatype error = TypeError

text \<open>The object that \<^verbatim>\<open>_getContentStyles\<close> returns.\<close>

record CSSStyleDeclaration =
  padding :: string
  webkitTransform :: "string option"
  transform :: "string option"
  height :: "string option"
  width :: "string option"

text \<open>
  \<^verbatim>\<open>this._sidebars.forEach\<close> with the callback of \<^verbatim>\<open>_getContentStyles\<close>: a null
  reference returns at once, any other panel is read from the heap as it is at that moment.
\<close>

fun forEach_visit :: "ref option list \<Rightarrow> locals \<times> world \<Rightarrow> locals \<times> world" where
  "forEach_visit [] s = s"
| "forEach_visit (None # rest) s = forEach_visit rest s"
| "forEach_visit (Some r # rest) (v, w) = forEach_visit rest (visit (heap w r) v, w)"

definition px :: "nat \<Rightarrow> string" where
  "px n = toString n @ ''px''"

definition getContentStyles :: "world \<Rightarrow> CSSStyleDeclaration \<times> world" where
  "getContentStyles w =
     (case forEach_visit (sidebars w) (init_locals, w) of
        (v, w') \<Rightarrow>
          (\<lparr>padding = px (top_px v) @ '' '' @ px (right v) @ '' '' @ px (bottom v) @ '' '' @
                       px (left v),
            webkitTransform = transformStyle v,
            transform = transformStyle v,
            height = heightStyle v,
            width = widthStyle v\<rparr>, w'))"

subsection \<open>The backdrop\<close>

definition markForCheck :: "world \<Rightarrow> world" where
  "markForCheck w = w\<lparr>markedForCheck := Suc (markedForCheck w)\<rparr>"

text \<open>
  \<^verbatim>\<open>this._sidebars.some(sidebar => sidebar.opened && sidebar.showBackdrop)\<close>: it stops at
  the first panel for which the callback is true, and the callback reads a field of its
  argument without a test, which on a null reference throws a \<^verbatim>\<open>TypeError\<close>.
\<close>

fun some_open :: "(ref \<Rightarrow> Sidebar) \<Rightarrow> ref option list \<Rightarrow> error + bool" where
  "some_open h [] = Inr False"
| "some_open h (None # rest) = Inl TypeError"
| "some_open h (Some r # rest) =
     (if opened (h r) \<and> sidebar_showBackdrop (h r) then Inr True else some_open h rest)"

text \<open>
  \<^verbatim>\<open>_onToggle\<close>. The emitted value is appended to \<open>showBackdropChange\<close>, and the call of
  \<^verbatim>\<open>setTimeout\<close> leaves one more callback to run later.
\<close>

definition onToggle :: "world \<Rightarrow> error + world" where
  "onToggle w =
     (if allowSidebarBackdropControl w then
        (case some_open (heap w) (sidebars w) of
           Inl e \<Rightarrow> Inl e
         | Inr hasOpen \<Rightarrow>
             Inr (w\<lparr>showBackdrop := hasOpen,
                    showBackdropChange := showBackdropChange w @ [hasOpen],
                    timeouts := Suc (timeouts w)\<rparr>))
      else Inr (w\<lparr>timeouts := Suc (timeouts w)\<rparr>))"

text \<open>The test of line 209 in \<^verbatim>\<open>_onBackdropClicked\<close>.\<close>

definition shouldClose :: "Sidebar \<Rightarrow> bool" where
  "shouldClose sidebar =
     (opened sidebar \<and> sidebar_showBackdrop sidebar \<and> closeOnClickBackdrop sidebar)"

text \<open>
  \<^verbatim>\<open>_onBackdropClicked\<close>. The method \<^verbatim>\<open>close\<close> belongs to the panel and is a
  parameter: \<open>close r\<close> is what closing the panel at \<open>r\<close> does to the state. The result
  lists the panels on which \<^verbatim>\<open>close\<close> was called, in the order of the calls. The loop runs
  over the elements that the array has when the click arrives (\<^verbatim>\<open>forEach\<close> fixes the range
  at its start, and the container only ever appends to the array), and reads each panel from the
  heap as the calls before it have left it. The callback reads \<^verbatim>\<open>sidebar.opened\<close> without
  a test, which on a null reference throws a \<^verbatim>\<open>TypeError\<close>; an exception is the value
  \<open>Inl\<close>, and the state in which it was thrown is not kept.
\<close>

fun forEach_close ::
  "(ref \<Rightarrow> world \<Rightarrow> world) \<Rightarrow> ref option list \<Rightarrow> world \<Rightarrow> error + (ref list \<times> world)" where
  "forEach_close close [] w = Inr ([], w)"
| "forEach_close close (None # rest) w = Inl TypeError"
| "forEach_close close (Some r # rest) w =
     (if shouldClose (heap w r) then
        (case forEach_close close rest (close r w) of
           Inl e \<Rightarrow> Inl e
         | Inr (calls, w') \<Rightarrow> Inr (r # calls, w'))
      else forEach_close close rest w)"

definition onBackdropClicked ::
  "(ref \<Rightarrow> world \<Rightarrow> world) \<Rightarrow> world \<Rightarrow> error + (ref list \<times> world)" where
  "onBackdropClicked close w = forEach_close close (sidebars w) w"

subsection \<open>Subscriptions\<close>

text \<open>
  An emitter is the list of its subscribed handlers: \<^verbatim>\<open>subscribe\<close> appends one, and
  \<^verbatim>\<open>unsubscribe\<close> on the emitter drops them all.
\<close>

definition subscribe_to :: "signal \<Rightarrow> handler \<Rightarrow> ref \<Rightarrow> world \<Rightarrow> world" where
  "subscribe_to s f r w =
     w\<lparr>observers := (observers w)(r := (observers w r)(s := observers w r s @ [f]))\<rparr>"

definition unsubscribe_from :: "signal \<Rightarrow> ref \<Rightarrow> world \<Rightarrow> world" where
  "unsubscribe_from s r w = w\<lparr>observers := (observers w)(r := (observers w r)(s := []))\<rparr>"

text \<open>\<^verbatim>\<open>_subscribe\<close> reads the emitters of its argument without a test.\<close>

definition subscribe :: "ref option \<Rightarrow> world \<Rightarrow> error + world" where
  "subscribe sidebar w =
     (case sidebar of
        None \<Rightarrow> Inl TypeError
      | Some r \<Rightarrow>
          Inr (subscribe_to OnRerender CallMarkForCheck r
              (subscribe_to OnPositionChange CallMarkForCheck r
              (subscribe_to OnModeChange CallMarkForCheck r
              (subscribe_to OnClosed CallMarkForCheck r
              (subscribe_to OnCloseStart CallOnToggle r
              (subscribe_to OnOpened CallMarkForCheck r
              (subscribe_to OnOpenStart CallOnToggle r w))))))))"

definition unsubscribe_panel :: "ref \<Rightarrow> world \<Rightarrow> world" where
  "unsubscribe_panel r w =
     unsubscribe_from OnRerender r
       (unsubscribe_from OnPositionChange r
       (unsubscribe_from OnModeChange r
       (unsubscribe_from OnClosed r
       (unsubscribe_from OnCloseStart r
       (unsubscribe_from OnOpened r
       (unsubscribe_from OnOpenStart r w))))))"

fun forEach_unsubscribe :: "ref option list \<Rightarrow> world \<Rightarrow> world" where
  "forEach_unsubscribe [] w = w"
| "forEach_unsubscribe (None # rest) w = forEach_unsubscribe rest w"
| "forEach_unsubscribe (Some r # rest) w = forEach_unsubscribe rest (unsubscribe_panel r w)"

definition unsubscribe :: "world \<Rightarrow> world" where
  "unsubscribe w = forEach_unsubscribe (sidebars w) w"

subsection \<open>The lifecycle hooks\<close>

text \<open>
  \<^verbatim>\<open>ngAfterContentInit\<close> hands a callback to \<^verbatim>\<open>SidebarService.onRegister\<close>;
  \<open>onRegister\<close> counts the callbacks handed over. \<open>registered\<close> is that callback.
\<close>

definition registered :: "ref option \<Rightarrow> world \<Rightarrow> error + world" where
  "registered sidebar w = subscribe sidebar (w\<lparr>sidebars := sidebars w @ [sidebar]\<rparr>)"

definition ngAfterContentInit :: "world \<Rightarrow> error + world" where
  "ngAfterContentInit w =
     (if \<not> isBrowser w then Inr w
      else (case onToggle w of
              Inl e \<Rightarrow> Inl e
            | Inr w' \<Rightarrow> Inr (w'\<lparr>onRegister := Suc (onRegister w')\<rparr>)))"

text \<open>
  The argument of \<^verbatim>\<open>ngOnChanges\<close> is \<^verbatim>\<open>changes['showBackdrop']\<close>: \<open>None\<close> when the
  key is absent, \<open>Some\<close> of its \<^verbatim>\<open>currentValue\<close> otherwise.
\<close>

definition ngOnChanges :: "bool option \<Rightarrow> world \<Rightarrow> world" where
  "ngOnChanges changes w =
     (if \<not> isBrowser w then w
      else (case changes of
              None \<Rightarrow> w
            | Some currentValue \<Rightarrow>
                w\<lparr>showBackdropChange := showBackdropChange w @ [currentValue]\<rparr>))"

definition ngOnDestroy :: "world \<Rightarrow> world" where
  "ngOnDestroy w = (if \<not> isBrowser w then w else unsubscribe w)"

subsection \<open>The container among its collaborators\<close>

text \<open>
  What can happen to a container: the framework calls a lifecycle hook; the template evaluates
  \<^verbatim>\<open>_getContentStyles\<close> or reports a click on the backdrop; the parent component sets one
  of the two inputs; and the three collaborators call back.
\<close>

datatype event =
  AfterContentInit
| Changes "bool option"
| Destroy
| ContentStyles
| BackdropClicked
| SetShowBackdrop bool
| SetAllowSidebarBackdropControl bool
| Register "ref option"
| Emit ref signal
| Timeout

text \<open>
  Modelled from the spec: the panel registry \<^verbatim>\<open>SidebarService\<close>, which is not part of the
  container's source file. The callback given to the registry receives one panel reference per
  call; each callback handed over is called once for a panel that registers.
\<close>

fun deliver :: "nat \<Rightarrow> ref option \<Rightarrow> world \<Rightarrow> error + world" where
  "deliver 0 sidebar w = Inr w"
| "deliver (Suc n) sidebar w =
     (case registered sidebar w of Inl e \<Rightarrow> Inl e | Inr w' \<Rightarrow> deliver n sidebar w')"

text \<open>
  An emitter that fires calls the handlers subscribed to it, in the order of subscription; the
  two handlers of the container are the arrow functions of \<^verbatim>\<open>_subscribe\<close>.
\<close>

fun call_handlers :: "handler list \<Rightarrow> world \<Rightarrow> error + world" where
  "call_handlers [] w = Inr w"
| "call_handlers (CallOnToggle # rest) w =
     (case onToggle w of Inl e \<Rightarrow> Inl e | Inr w' \<Rightarrow> call_handlers rest w')"
| "call_handlers (CallMarkForCheck # rest) w = call_handlers rest (markForCheck w)"

text \<open>A callback given to \<^verbatim>\<open>setTimeout\<close> by \<^verbatim>\<open>_onToggle\<close> runs: line 266.\<close>

definition timeout :: "world \<Rightarrow> world" where
  "timeout w = (if timeouts w = 0 then w else markForCheck (w\<lparr>timeouts := timeouts w - 1\<rparr>))"

definition step :: "(ref \<Rightarrow> world \<Rightarrow> world) \<Rightarrow> event \<Rightarrow> world \<Rightarrow> error + world" where
  "step close e w =
     (case e of
        AfterContentInit \<Rightarrow> ngAfterContentInit w
      | Changes changes \<Rightarrow> Inr (ngOnChanges changes w)
      | Destroy \<Rightarrow> Inr (ngOnDestroy w)
      | ContentStyles \<Rightarrow> Inr (snd (getContentStyles w))
      | BackdropClicked \<Rightarrow>
          (case onBackdropClicked close w of Inl err \<Rightarrow> Inl err | Inr (calls, w') \<Rightarrow> Inr w')
      | SetShowBackdrop b \<Rightarrow> Inr (w\<lparr>showBackdrop := b\<rparr>)
      | SetAllowSidebarBackdropControl b \<Rightarrow> Inr (w\<lparr>allowSidebarBackdropControl := b\<rparr>)
      | Register sidebar \<Rightarrow> deliver (onRegister w) sidebar w
      | Emit r s \<Rightarrow> call_handlers (observers w r s) w
      | Timeout \<Rightarrow> Inr (timeout w))"

text \<open>A sequence of events; an exception that nothing catches ends it.\<close>

fun run :: "(ref \<Rightarrow> world \<Rightarrow> world) \<Rightarrow> event list \<Rightarrow> world \<Rightarrow> error + world" where
  "run close [] w = Inr w"
| "run close (e # es) w =
     (case step close e w of Inl err \<Rightarrow> Inl err | Inr w' \<Rightarrow> run close es w')"

subsection \<open>The properties, in the specification's words\<close>

text \<open>The panels that the container tracks, in the order of the array, null references dropped.\<close>

fun panels_of :: "(ref \<Rightarrow> Sidebar) \<Rightarrow> ref option list \<Rightarrow> Sidebar list" where
  "panels_of h [] = []"
| "panels_of h (None # rest) = panels_of h rest"
| "panels_of h (Some r # rest) = h r # panels_of h rest"

text \<open>
  Invariant I2 of the specification: a panel contributes reserved space on its side if and only
  if its mode is push and it is opened, or it is docked.
\<close>

definition spec_contributes :: "Sidebar \<Rightarrow> bool" where
  "spec_contributes p = ((isModePush p \<and> opened p) \<or> dock p)"

text \<open>
  Invariant I3: the reserved amount is the docked size if the panel is docked, or is an overlay
  with the dock option; otherwise its extent along the axis of its side; unless the panel is in
  slide mode and opened, when the side receives a size override and no padding.
\<close>

definition spec_reserved :: "Sidebar \<Rightarrow> nat" where
  "spec_reserved p =
     (if isModeSlide p \<and> opened p then 0
      else if isDocked p \<or> (isModeOver p \<and> dock p) then dockedSize p
      else if position p = ''left'' \<or> position p = ''right'' then sidebar_width p
      else sidebar_height p)"

text \<open>
  Invariant I1: the padding of a side is the maximum of the reserved amounts of the panels at
  that position that contribute, and 0 if there is none.
\<close>

definition spec_padding :: "Sidebar list \<Rightarrow> string \<Rightarrow> nat" where
  "spec_padding ps pos =
     (let amounts = map spec_reserved (filter (\<lambda>p. position p = pos \<and> spec_contributes p) ps)
      in if amounts = [] then 0 else Max (set amounts))"

text \<open>The accumulator of a side.\<close>

definition side :: "string \<Rightarrow> locals \<Rightarrow> nat" where
  "side pos v =
     (if pos = ''left'' then left v else if pos = ''right'' then right v
      else if pos = ''top'' then top_px v else bottom v)"

text \<open>The test of line 141 and line 142 together: the panel overwrites the transform.\<close>

definition slides :: "Sidebar \<Rightarrow> bool" where
  "slides p = (isModeSlide p \<and> opened p)"

text \<open>
  A container that has no rendering surface and has done nothing yet: the flag is false, no
  panel is tracked, no callback has been handed to the registry, no timer is pending and the
  container has subscribed to nothing.
\<close>

definition inert :: "world \<Rightarrow> bool" where
  "inert w =
     (\<not> isBrowser w \<and> sidebars w = [] \<and> onRegister w = 0 \<and> timeouts w = 0 \<and>
      observers w = (\<lambda>r s. []))"

text \<open>Two states that differ at most in the two inputs that the parent component sets.\<close>

definition same_but_inputs :: "world \<Rightarrow> world \<Rightarrow> bool" where
  "same_but_inputs w w' =
     (isBrowser w' = isBrowser w \<and> sidebars w' = sidebars w \<and> heap w' = heap w \<and>
      observers w' = observers w \<and> showBackdropChange w' = showBackdropChange w \<and>
      onRegister w' = onRegister w \<and> timeouts w' = timeouts w \<and>
      markedForCheck w' = markedForCheck w)"

subsection \<open>Example states\<close>

text \<open>
  A closed overlay panel at the left with no size, and a container in a browser that tracks no
  panel yet. The examples below are built from them by updates.
\<close>

definition plain_panel :: Sidebar where
  "plain_panel =
     \<lparr>position = ''left'', opened = False, dock = False, sidebar_showBackdrop = False,
      closeOnClickBackdrop = False, isModeSlide = False, isModePush = False, isModeOver = True,
      isDocked = False, dockedSize = 0, sidebar_width = 0, sidebar_height = 0\<rparr>"

definition fresh :: world where
  "fresh =
     \<lparr>isBrowser = True, allowSidebarBackdropControl = True, showBackdrop = False,
      sidebars = [], heap = (\<lambda>r. plain_panel), observers = (\<lambda>r s. []),
      showBackdropChange = [], onRegister = 0, timeouts = 0, markedForCheck = 0\<rparr>"

definition slide_panel :: "string \<Rightarrow> nat \<Rightarrow> nat \<Rightarrow> Sidebar" where
  "slide_panel pos w h =
     plain_panel\<lparr>position := pos, opened := True, isModeSlide := True, isModeOver := False,
       sidebar_width := w, sidebar_height := h\<rparr>"

definition push_panel :: "string \<Rightarrow> nat \<Rightarrow> nat \<Rightarrow> Sidebar" where
  "push_panel pos w h =
     plain_panel\<lparr>position := pos, opened := True, isModePush := True, isModeOver := False,
       sidebar_width := w, sidebar_height := h\<rparr>"

definition backdrop_panel :: "bool \<Rightarrow> Sidebar" where
  "backdrop_panel c =
     plain_panel\<lparr>opened := True, sidebar_showBackdrop := True, closeOnClickBackdrop := c\<rparr>"


text \<open>
  Modelled from the spec: the method \<^verbatim>\<open>close\<close> of a panel, which requests the panel to
  become closed. Here it sets \<^verbatim>\<open>opened\<close> of its panel to false and does nothing else.
\<close>

definition close_panel :: "ref \<Rightarrow> world \<Rightarrow> world" where
  "close_panel r w = w\<lparr>heap := (heap w)(r := (heap w r)\<lparr>opened := False\<rparr>)\<rparr>"

text \<open>
  A container whose backdrop is set from outside: the control is not allowed, the backdrop has
  been set to visible, and the one panel is closed.
\<close>

definition external_backdrop :: world where
  "external_backdrop =
     fresh\<lparr>allowSidebarBackdropControl := False, showBackdrop := True, sidebars := [Some 0]\<rparr>"

text \<open>The style of a container without panels.\<close>

definition no_styles :: CSSStyleDeclaration where
  "no_styles =
     \<lparr>padding = ''0px 0px 0px 0px'', webkitTransform = None, transform = None,
      height = None, width = None\<rparr>"

text \<open>A container in a browser that tracks one panel, and one that tracks two.\<close>

definition one_panel :: "Sidebar \<Rightarrow> world" where
  "one_panel p = fresh\<lparr>sidebars := [Some 0], heap := (\<lambda>r. p)\<rparr>"

definition two_panels :: "Sidebar \<Rightarrow> Sidebar \<Rightarrow> world" where
  "two_panels p q = fresh\<lparr>sidebars := [Some 0, Some 1], heap := (\<lambda>r. if r = 0 then p else q)\<rparr>"

section \<open>Properties of the style computation\<close>

subsection \<open>The loop as a fold\<close>

lemma forEach_visit_foldl:
  "forEach_visit refs (v, w) = (foldl (\<lambda>v p. visit p v) v (panels_of (heap w) refs), w)"
proof (induction refs arbitrary: v)
  case Nil
  show ?case by simp
next
  case (Cons x refs)
  show ?case by (cases x) (simp_all add: Cons.IH)
qed

lemma transformStyle_visit:
  "transformStyle (visit p v) = (if slides p then Some (translate p) else transformStyle v)"
  by (simp add: visit_def Let_def slide_step_def override_step_def switch_position_def slides_def)

lemma transformStyle_foldl:
  "transformStyle (foldl (\<lambda>v p. visit p v) v ps) =
     (if filter slides ps = [] then transformStyle v
      else Some (translate (last (filter slides ps))))"
proof (induction ps arbitrary: v)
  case Nil
  show ?case by simp
next
  case (Cons p ps)
  show ?case by (simp add: Cons.IH transformStyle_visit)
qed

lemma transform_final:
  "transform (fst (getContentStyles w)) =
     (if filter slides (panels_of (heap w) (sidebars w)) = [] then None
      else Some (translate (last (filter slides (panels_of (heap w) (sidebars w))))))"
  by (simp add: getContentStyles_def forEach_visit_foldl transformStyle_foldl init_locals_def)

lemma webkitTransform_final:
  "webkitTransform (fst (getContentStyles w)) = transform (fst (getContentStyles w))"
  by (simp add: getContentStyles_def split: prod.splits)

subsection \<open>The accumulators of the padding\<close>

lemma paddingAmt_spec: "paddingAmt p = spec_reserved p"
  by (simp add: paddingAmt_def spec_reserved_def isLeftOrRight_def)

lemma side_visit:
  assumes "pos \<in> {''left'', ''right'', ''top'', ''bottom''}"
  shows "side pos (visit p v) =
     (if position p = pos \<and> spec_contributes p then max (side pos v) (spec_reserved p)
      else side pos v)"
  using assms
  by (auto simp: side_def visit_def Let_def slide_step_def override_step_def switch_position_def
      spec_contributes_def paddingAmt_spec)

lemma side_foldl:
  assumes "pos \<in> {''left'', ''right'', ''top'', ''bottom''}"
  shows "side pos (foldl (\<lambda>v p. visit p v) v ps) =
     fold max (map spec_reserved (filter (\<lambda>p. position p = pos \<and> spec_contributes p) ps))
       (side pos v)"
proof (induction ps arbitrary: v)
  case Nil
  show ?case by simp
next
  case (Cons p ps)
  show ?case by (simp add: Cons.IH side_visit [OF assms] max.commute)
qed

lemma fold_max_Max: "fold max xs (a::nat) = (if xs = [] then a else max a (Max (set xs)))"
proof (induction xs arbitrary: a)
  case Nil
  show ?case by simp
next
  case (Cons x xs)
  show ?case by (cases "xs = []") (simp_all add: Cons.IH max.assoc max.commute)
qed

lemma side_init: "side pos init_locals = 0"
  by (simp add: side_def init_locals_def)

lemma side_final:
  assumes "pos \<in> {''left'', ''right'', ''top'', ''bottom''}"
  shows "side pos (foldl (\<lambda>v p. visit p v) init_locals ps) = spec_padding ps pos"
  by (simp add: side_foldl [OF assms] fold_max_Max side_init spec_padding_def Let_def)

subsection \<open>Strings\<close>

lemma toString_300: "toString 300 = ''300''" by code_simp
lemma toString_0: "toString 0 = ''0''" by code_simp
lemma toString_56: "toString 56 = ''56''" by (simp add: toString.simps digit_def)

lemma translate_cases:
  "translate p =
     (if position p = ''left'' then ''translateX('' @ toString (sidebar_width p) @ ''px)''
      else if position p = ''right'' then ''translateX(-'' @ toString (sidebar_width p) @ ''px)''
      else if position p = ''top'' then ''translateY('' @ toString (sidebar_height p) @ ''px)''
      else ''translateY(-'' @ toString (sidebar_height p) @ ''px)'')"
  by (simp add: translate_def transformDir_def transformAmt_def isLeftOrRight_def isLeftOrTop_def)

lemma toString_200: "toString 200 = ''200''" by code_simp

lemma toString_40: "toString 40 = ''40''" by code_simp

subsection \<open>One panel, and what the computation reads\<close>

lemma padding_single:
  assumes "sidebars w = [Some r]" "paddingAmt (heap w r) = 0"
  shows "padding (fst (getContentStyles w)) = ''0px 0px 0px 0px''"
  using assms
  by (simp add: getContentStyles_def visit_def Let_def slide_step_def override_step_def
      switch_position_def init_locals_def px_def toString_0)

lemma forEach_visit_snd: "snd (forEach_visit refs (v, w)) = w"
  by (simp add: forEach_visit_foldl)

lemma getContentStyles_snd: "snd (getContentStyles w) = w"
  by (simp add: getContentStyles_def forEach_visit_foldl)

lemma panels_of_cong:
  assumes "\<forall>r. Some r \<in> set refs \<longrightarrow> h' r = h r"
  shows "panels_of h' refs = panels_of h refs"
  using assms
proof (induction refs)
  case Nil
  show ?case by simp
next
  case (Cons x refs)
  then show ?case by (cases x) simp_all
qed

lemma getContentStyles_reads:
  assumes "sidebars w' = sidebars w" and "\<forall>r. Some r \<in> set (sidebars w) \<longrightarrow> heap w' r = heap w r"
  shows "fst (getContentStyles w') = fst (getContentStyles w)"
proof -
  have "panels_of (heap w') (sidebars w') = panels_of (heap w) (sidebars w)"
    using assms by (simp add: panels_of_cong)
  then show ?thesis by (simp add: getContentStyles_def forEach_visit_foldl)
qed

lemma toString_250: "toString 250 = ''250''" by code_simp

lemma toString_120: "toString 120 = ''120''" by code_simp

section \<open>Properties of the backdrop and of the lifecycle\<close>

lemma some_open_Inr:
  "some_open h refs = Inr b \<Longrightarrow>
     b = (\<exists>p \<in> set (panels_of h refs). opened p \<and> sidebar_showBackdrop p)"
proof (induction refs)
  case Nil
  then show ?case by simp
next
  case (Cons x refs)
  then show ?case by (cases x) (auto split: if_splits)
qed

lemma some_open_total: "None \<notin> set refs \<Longrightarrow> \<exists>b. some_open h refs = Inr b"
proof (induction refs)
  case Nil
  show ?case by auto
next
  case (Cons x refs)
  then show ?case by (cases x) auto
qed


lemma same_but_inputs_refl: "same_but_inputs w w"
  by (simp add: same_but_inputs_def)

lemma same_but_inputs_trans:
  "same_but_inputs w w' \<Longrightarrow> same_but_inputs w' w'' \<Longrightarrow> same_but_inputs w w''"
  by (simp add: same_but_inputs_def)

lemma same_but_inputs_inert: "same_but_inputs w w' \<Longrightarrow> inert w \<Longrightarrow> inert w'"
  by (simp add: same_but_inputs_def inert_def)

lemma getContentStyles_empty: "sidebars w = [] \<Longrightarrow> getContentStyles w = (no_styles, w)"
  by (simp add: getContentStyles_def no_styles_def init_locals_def px_def toString_0)

lemma step_inert:
  assumes "inert w"
  shows "\<exists>w'. step close e w = Inr w' \<and> same_but_inputs w w'"
proof (cases e)
  case AfterContentInit
  with assms show ?thesis by (simp add: step_def ngAfterContentInit_def inert_def same_but_inputs_def)
next
  case (Changes c)
  with assms show ?thesis by (simp add: step_def ngOnChanges_def inert_def same_but_inputs_def)
next
  case Destroy
  with assms show ?thesis by (simp add: step_def ngOnDestroy_def inert_def same_but_inputs_def)
next
  case ContentStyles
  with assms show ?thesis by (simp add: step_def getContentStyles_empty inert_def same_but_inputs_def)
next
  case BackdropClicked
  with assms show ?thesis by (simp add: step_def onBackdropClicked_def inert_def same_but_inputs_def)
next
  case (SetShowBackdrop b)
  then show ?thesis by (simp add: step_def same_but_inputs_def)
next
  case (SetAllowSidebarBackdropControl b)
  then show ?thesis by (simp add: step_def same_but_inputs_def)
next
  case (Register sidebar)
  with assms show ?thesis by (simp add: step_def inert_def same_but_inputs_def)
next
  case (Emit r s)
  with assms show ?thesis by (simp add: step_def inert_def same_but_inputs_def)
next
  case Timeout
  with assms show ?thesis by (simp add: step_def timeout_def inert_def same_but_inputs_def)
qed

lemma run_inert:
  assumes "inert w"
  shows "\<exists>w'. run close es w = Inr w' \<and> same_but_inputs w w'"
  using assms
proof (induction es arbitrary: w)
  case Nil
  show ?case by (simp add: same_but_inputs_refl)
next
  case (Cons e es)
  from step_inert [OF Cons.prems, of close e] obtain w1 where
    w1: "step close e w = Inr w1" "same_but_inputs w w1" by blast
  from same_but_inputs_inert [OF w1(2) Cons.prems] have "inert w1" .
  from Cons.IH [OF this] obtain w' where
    w': "run close es w1 = Inr w'" "same_but_inputs w1 w'" by blast
  from w1 w' show ?case by (auto intro: same_but_inputs_trans)
qed

section \<open>The claims about the style computation\<close>

text \<open>
  Claim C1. For every sequence of panels, the padding of the computed content style on each
  side (top, right, bottom, left, in the order of the shorthand) is the maximum, over the
  panels at that position that contribute reserved space (mode push and opened, or dock), of
  the reserved amount of each, and 0 when no panel at that position contributes. The amounts
  are never added up.
\<close>

theorem padding_is_maximum:
  "padding (fst (getContentStyles w)) =
     px (spec_padding (panels_of (heap w) (sidebars w)) ''top'') @ '' '' @
     px (spec_padding (panels_of (heap w) (sidebars w)) ''right'') @ '' '' @
     px (spec_padding (panels_of (heap w) (sidebars w)) ''bottom'') @ '' '' @
     px (spec_padding (panels_of (heap w) (sidebars w)) ''left'')"
proof -
  let ?v = "foldl (\<lambda>v p. visit p v) init_locals (panels_of (heap w) (sidebars w))"
  have "top_px ?v = side ''top'' ?v" "right ?v = side ''right'' ?v"
    "bottom ?v = side ''bottom'' ?v" "left ?v = side ''left'' ?v"
    by (simp_all add: side_def)
  then show ?thesis
    by (simp add: getContentStyles_def forEach_visit_foldl side_final)
qed

text \<open>
  Two push panels at the left, 200 and 80 pixels wide and both opened, give a left padding of
  200 pixels.
\<close>

theorem padding_is_maximum_witness:
  "padding (fst (getContentStyles (two_panels (push_panel ''left'' 200 0) (push_panel ''left'' 80 0))))
     = ''0px 0px 0px 200px''"
  using padding_is_maximum [of "two_panels (push_panel ''left'' 200 0) (push_panel ''left'' 80 0)"]
  by (simp add: two_panels_def fresh_def push_panel_def plain_panel_def spec_padding_def
      spec_contributes_def spec_reserved_def px_def toString_0 toString_200)

text \<open>
  Claim C9. When two or more panels are in slide mode and opened, the computed content style
  carries one transform, the one computed from the last of them in the order of the array;
  the prefixed alias \<open>webkitTransform\<close> carries the same value.
\<close>

theorem last_slide_wins:
  assumes "2 \<le> length (filter slides (panels_of (heap w) (sidebars w)))"
  shows "transform (fst (getContentStyles w)) =
           Some (translate (last (filter slides (panels_of (heap w) (sidebars w))))) \<and>
         webkitTransform (fst (getContentStyles w)) = transform (fst (getContentStyles w))"
proof -
  from assms have "filter slides (panels_of (heap w) (sidebars w)) \<noteq> []" by auto
  then show ?thesis by (simp add: transform_final webkitTransform_final)
qed

theorem last_slide_wins_witness:
  "2 \<le> length (filter slides (panels_of
      (heap (two_panels (slide_panel ''left'' 300 0) (slide_panel ''top'' 0 40)))
      (sidebars (two_panels (slide_panel ''left'' 300 0) (slide_panel ''top'' 0 40))))) \<and>
   transform (fst (getContentStyles (two_panels (slide_panel ''left'' 300 0) (slide_panel ''top'' 0 40))))
     = Some ''translateY(40px)''"
  using last_slide_wins [of "two_panels (slide_panel ''left'' 300 0) (slide_panel ''top'' 0 40)"]
  by (simp add: two_panels_def fresh_def slide_panel_def plain_panel_def slides_def
      translate_cases toString_40)

text \<open>
  Claim C5. When the only panel is in slide mode, at the left, 300 pixels wide, opened and not
  docked, the transform of the computed content style is the string \<open>translateX(300px)\<close> and
  the left padding is 0: the padding is \<open>0px 0px 0px 0px\<close>.
\<close>

theorem single_slide_left_panel:
  assumes "sidebars w = [Some r]" and "isModeSlide (heap w r)"
    and "position (heap w r) = ''left''" and "sidebar_width (heap w r) = 300"
    and "opened (heap w r)" and "\<not> dock (heap w r)"
  shows "transform (fst (getContentStyles w)) = Some ''translateX(300px)'' \<and>
         padding (fst (getContentStyles w)) = ''0px 0px 0px 0px''"
proof -
  have "filter slides (panels_of (heap w) (sidebars w)) = [heap w r]"
    using assms by (simp add: slides_def)
  then have "transform (fst (getContentStyles w)) = Some (translate (heap w r))"
    by (simp add: transform_final)
  moreover have "translate (heap w r) = ''translateX(300px)''"
    using assms by (simp add: translate_cases toString_300)
  moreover have "paddingAmt (heap w r) = 0"
    using assms by (simp add: paddingAmt_def)
  ultimately show ?thesis
    using assms(1) by (simp add: padding_single)
qed

theorem single_slide_left_panel_witness:
  "sidebars (one_panel (slide_panel ''left'' 300 0)) = [Some 0] \<and>
   isModeSlide (heap (one_panel (slide_panel ''left'' 300 0)) 0) \<and>
   position (heap (one_panel (slide_panel ''left'' 300 0)) 0) = ''left'' \<and>
   sidebar_width (heap (one_panel (slide_panel ''left'' 300 0)) 0) = 300 \<and>
   opened (heap (one_panel (slide_panel ''left'' 300 0)) 0) \<and>
   \<not> dock (heap (one_panel (slide_panel ''left'' 300 0)) 0) \<and>
   transform (fst (getContentStyles (one_panel (slide_panel ''left'' 300 0)))) =
     Some ''translateX(300px)'' \<and>
   padding (fst (getContentStyles (one_panel (slide_panel ''left'' 300 0)))) = ''0px 0px 0px 0px''"
  using single_slide_left_panel [of "one_panel (slide_panel ''left'' 300 0)" 0]
  by (simp add: one_panel_def fresh_def slide_panel_def plain_panel_def)

text \<open>
  Claim C3 says that the transform of a panel in slide mode that is opened has a positive sign
  at the right and at the bottom and a negative sign at the left and at the top. The code
  writes the minus sign when the position is neither left nor top, so the signs are the other
  way round. As amended: for every panel in slide mode that is opened, the transform that the
  panel writes is \<open>translate\<close>, then the axis, \<open>X\<close> at the left and at the right and
  \<open>Y\<close> at the top and at the bottom, then in parentheses the amount in pixels, which is
  the width at the left and at the right and the height at the top and at the bottom, with no
  sign at the left and at the top and with a minus sign at the right and at the bottom; and it
  is the transform of the computed content style when the panel is the last such panel.
\<close>

theorem slide_transform_direction:
  assumes "slides p"
  shows "transformStyle (visit p v) = Some (translate p) \<and>
         (position p = ''left'' \<longrightarrow>
            translate p = ''translateX('' @ toString (sidebar_width p) @ ''px)'') \<and>
         (position p = ''right'' \<longrightarrow>
            translate p = ''translateX(-'' @ toString (sidebar_width p) @ ''px)'') \<and>
         (position p = ''top'' \<longrightarrow>
            translate p = ''translateY('' @ toString (sidebar_height p) @ ''px)'') \<and>
         (position p = ''bottom'' \<longrightarrow>
            translate p = ''translateY(-'' @ toString (sidebar_height p) @ ''px)'') \<and>
         (\<forall>w. filter slides (panels_of (heap w) (sidebars w)) \<noteq> [] \<and>
              last (filter slides (panels_of (heap w) (sidebars w))) = p \<longrightarrow>
              transform (fst (getContentStyles w)) = Some (translate p))"
  using assms by (simp add: transformStyle_visit translate_cases transform_final)

theorem slide_transform_direction_witness:
  "slides (slide_panel ''right'' 120 30) \<and>
   transformStyle (visit (slide_panel ''right'' 120 30) init_locals) = Some ''translateX(-120px)'' \<and>
   transform (fst (getContentStyles (one_panel (slide_panel ''right'' 120 30)))) =
     Some ''translateX(-120px)''"
proof -
  have s: "slides (slide_panel ''right'' 120 30)"
    by (simp add: slides_def slide_panel_def plain_panel_def)
  have t: "translate (slide_panel ''right'' 120 30) = ''translateX(-120px)''"
    using slide_transform_direction [OF s, of init_locals]
    by (simp add: slide_panel_def plain_panel_def toString_120)
  have l: "filter slides (panels_of (heap (one_panel (slide_panel ''right'' 120 30)))
             (sidebars (one_panel (slide_panel ''right'' 120 30)))) = [slide_panel ''right'' 120 30]"
    using s by (simp add: one_panel_def fresh_def)
  show ?thesis
    using s t l slide_transform_direction [OF s, of init_locals] by simp
qed

text \<open>
  The claim as stated fails at a slide panel at the left, 250 pixels wide and opened: its
  transform is \<open>translateX(250px)\<close>, with no minus sign. The same panel at the right gives
  \<open>translateX(-250px)\<close>, and with a height of 40 pixels it gives \<open>translateY(40px)\<close> at the
  top and \<open>translateY(-40px)\<close> at the bottom.
\<close>

theorem slide_sign_counterexample:
  "transform (fst (getContentStyles (one_panel (slide_panel ''left'' 250 40)))) =
     Some ''translateX(250px)'' \<and>
   transform (fst (getContentStyles (one_panel (slide_panel ''left'' 250 40)))) \<noteq>
     Some ''translateX(-250px)'' \<and>
   transform (fst (getContentStyles (one_panel (slide_panel ''right'' 250 40)))) =
     Some ''translateX(-250px)'' \<and>
   transform (fst (getContentStyles (one_panel (slide_panel ''top'' 250 40)))) =
     Some ''translateY(40px)'' \<and>
   transform (fst (getContentStyles (one_panel (slide_panel ''bottom'' 250 40)))) =
     Some ''translateY(-40px)''"
  by (simp add: transform_final one_panel_def fresh_def slide_panel_def plain_panel_def slides_def
      translate_cases toString_250 toString_40)

text \<open>
  Claim C4. For a panel in slide mode at the left, opened, docked with a docked size of 56, the
  claim expects the width \<open>calc(100% - 56px)\<close>. The template literal of line 157 has no
  closing parenthesis, and the width that the code computes is \<open>calc(100% - 56px\<close>. The
  panel leaves the left padding at 0, as the claim says.
\<close>

theorem docked_slide_width_unclosed:
  "width (fst (getContentStyles
     (one_panel ((slide_panel ''left'' 300 0)\<lparr>dock := True, dockedSize := 56\<rparr>)))) =
     Some ''calc(100% - 56px'' \<and>
   width (fst (getContentStyles
     (one_panel ((slide_panel ''left'' 300 0)\<lparr>dock := True, dockedSize := 56\<rparr>)))) \<noteq>
     Some ''calc(100% - 56px)'' \<and>
   padding (fst (getContentStyles
     (one_panel ((slide_panel ''left'' 300 0)\<lparr>dock := True, dockedSize := 56\<rparr>)))) =
     ''0px 0px 0px 0px''"
  by (simp add: getContentStyles_def one_panel_def fresh_def slide_panel_def plain_panel_def
      visit_def Let_def slide_step_def override_step_def switch_position_def init_locals_def
      paddingAmt_def isLeftOrRight_def offsetDim_def px_def toString_0 toString_56)

text \<open>
  Claim C10. The style computation is deterministic and has no effect: it returns the state
  that it was given, with the array of panels, \<open>showBackdrop\<close> and the fields of every
  panel as they were; a second call returns the same style; and the style is the same in any
  two states that have the same array of panels and the same fields of the panels in it.
\<close>

theorem getContentStyles_effect_free:
  "snd (getContentStyles w) = w \<and>
   getContentStyles (snd (getContentStyles w)) = getContentStyles w \<and>
   (\<forall>w' :: world. sidebars w' = sidebars w \<and> (\<forall>r. Some r \<in> set (sidebars w) \<longrightarrow> heap w' r = heap w r) \<longrightarrow>
      fst (getContentStyles w') = fst (getContentStyles w))"
proof (intro conjI allI impI)
  show "snd (getContentStyles w) = w" by (rule getContentStyles_snd)
  then show "getContentStyles (snd (getContentStyles w)) = getContentStyles w" by simp
next
  fix w' :: world
  assume "sidebars w' = sidebars w \<and> (\<forall>r. Some r \<in> set (sidebars w) \<longrightarrow> heap w' r = heap w r)"
  then show "fst (getContentStyles w') = fst (getContentStyles w)"
    by (intro getContentStyles_reads) simp_all
qed

theorem getContentStyles_effect_free_witness:
  "snd (getContentStyles (one_panel (push_panel ''top'' 10 70))) = one_panel (push_panel ''top'' 10 70) \<and>
   fst (getContentStyles ((one_panel (push_panel ''top'' 10 70))
      \<lparr>showBackdrop := True, heap := (\<lambda>r. if r = 0 then push_panel ''top'' 10 70 else plain_panel)\<rparr>)) =
   fst (getContentStyles (one_panel (push_panel ''top'' 10 70)))"
proof -
  let ?w = "one_panel (push_panel ''top'' 10 70)"
  let ?w' = "?w\<lparr>showBackdrop := True, heap := (\<lambda>r. if r = 0 then push_panel ''top'' 10 70 else plain_panel)\<rparr>"
  have "sidebars ?w' = sidebars ?w \<and> (\<forall>r. Some r \<in> set (sidebars ?w) \<longrightarrow> heap ?w' r = heap ?w r)"
    by (simp add: one_panel_def fresh_def)
  then show ?thesis
    using getContentStyles_effect_free [of ?w] by blast
qed

section \<open>The claims about the backdrop\<close>

text \<open>
  Claim C2 says that after \<^verbatim>\<open>_onToggle\<close> the backdrop is visible if and only if the
  control is allowed and at least one tracked panel is opened and shows the backdrop, and also
  that with the control not allowed the backdrop stays as it was set from outside. The two
  parts disagree when the control is not allowed and the backdrop was set to visible, and the
  code does what the second part says. As amended: after \<^verbatim>\<open>_onToggle\<close>, when
  \<open>allowSidebarBackdropControl\<close> is true, \<open>showBackdrop\<close> is true if and only if at least
  one tracked panel is opened and shows the backdrop, and that value has been emitted; when
  \<open>allowSidebarBackdropControl\<close> is false, \<open>showBackdrop\<close> is as it was set from outside,
  nothing is written to it and no change event is emitted. The call changes neither the array
  of panels nor a panel, and it schedules one timer. It returns whenever the array holds no
  null reference or the control is not allowed.
\<close>

theorem onToggle_backdrop:
  "(\<forall>w'. onToggle w = Inr w' \<longrightarrow>
      (allowSidebarBackdropControl w \<longrightarrow>
         (showBackdrop w' \<longleftrightarrow>
            (\<exists>p \<in> set (panels_of (heap w) (sidebars w)). opened p \<and> sidebar_showBackdrop p)) \<and>
         showBackdropChange w' = showBackdropChange w @ [showBackdrop w']) \<and>
      (\<not> allowSidebarBackdropControl w \<longrightarrow>
         showBackdrop w' = showBackdrop w \<and> showBackdropChange w' = showBackdropChange w) \<and>
      sidebars w' = sidebars w \<and> heap w' = heap w \<and> timeouts w' = Suc (timeouts w)) \<and>
   (None \<notin> set (sidebars w) \<or> \<not> allowSidebarBackdropControl w \<longrightarrow> (\<exists>w'. onToggle w = Inr w'))"
proof (intro conjI allI impI)
  fix w'
  assume r: "onToggle w = Inr w'"
  {
    assume a: "allowSidebarBackdropControl w"
    with r obtain b where b: "some_open (heap w) (sidebars w) = Inr b"
      and w': "w' = w\<lparr>showBackdrop := b, showBackdropChange := showBackdropChange w @ [b],
                    timeouts := Suc (timeouts w)\<rparr>"
      by (auto simp: onToggle_def split: sum.splits)
    from some_open_Inr [OF b] w'
    show "showBackdrop w' \<longleftrightarrow>
            (\<exists>p \<in> set (panels_of (heap w) (sidebars w)). opened p \<and> sidebar_showBackdrop p)"
      by simp
    from w' show "showBackdropChange w' = showBackdropChange w @ [showBackdrop w']" by simp
  }
  {
    assume "\<not> allowSidebarBackdropControl w"
    with r have "w' = w\<lparr>timeouts := Suc (timeouts w)\<rparr>" by (simp add: onToggle_def)
    then show "showBackdrop w' = showBackdrop w" "showBackdropChange w' = showBackdropChange w"
      by simp_all
  }
  from r show "sidebars w' = sidebars w" "heap w' = heap w" "timeouts w' = Suc (timeouts w)"
    by (auto simp: onToggle_def split: sum.splits if_splits)
next
  assume "None \<notin> set (sidebars w) \<or> \<not> allowSidebarBackdropControl w"
  then show "\<exists>w'. onToggle w = Inr w'"
    using some_open_total [of "sidebars w" "heap w"] by (auto simp: onToggle_def)
qed

text \<open>
  Of two panels, one closed and one opened that shows the backdrop, with the control allowed:
  the backdrop becomes visible and \<open>True\<close> is emitted. With the control not allowed and the
  backdrop set to visible from outside, no panel opened: the backdrop stays visible and nothing
  is emitted.
\<close>

theorem onToggle_backdrop_witness:
  "allowSidebarBackdropControl (two_panels plain_panel (backdrop_panel False)) \<and>
   (\<exists>w'. onToggle (two_panels plain_panel (backdrop_panel False)) = Inr w' \<and>
      showBackdrop w' \<and> showBackdropChange w' = [True]) \<and>
   \<not> allowSidebarBackdropControl external_backdrop \<and>
   (\<exists>w'. onToggle external_backdrop = Inr w' \<and>
      showBackdrop w' \<and> showBackdropChange w' = [])"
proof -
  let ?a = "two_panels plain_panel (backdrop_panel False)"
  let ?b = "external_backdrop"
  have a: "allowSidebarBackdropControl ?a" "None \<notin> set (sidebars ?a)" "showBackdropChange ?a = []"
    "\<exists>p \<in> set (panels_of (heap ?a) (sidebars ?a)). opened p \<and> sidebar_showBackdrop p"
    by (simp_all add: two_panels_def fresh_def backdrop_panel_def plain_panel_def)
  have b: "\<not> allowSidebarBackdropControl ?b" "showBackdrop ?b" "showBackdropChange ?b = []"
    by (simp_all add: external_backdrop_def fresh_def)
  from a onToggle_backdrop [of ?a] obtain wa where wa: "onToggle ?a = Inr wa" by blast
  with a onToggle_backdrop [of ?a] have "showBackdrop wa \<and> showBackdropChange wa = [True]"
    by auto
  moreover from b onToggle_backdrop [of ?b] obtain wb where wb: "onToggle ?b = Inr wb" by blast
  with b onToggle_backdrop [of ?b] have "showBackdrop wb \<and> showBackdropChange wb = []"
    by auto
  ultimately show ?thesis using a(1) b(1) wa wb by blast
qed

text \<open>
  The claim as stated fails in the state where the control is not allowed and the backdrop has
  been set to visible from outside: \<^verbatim>\<open>_onToggle\<close> schedules its timer and changes nothing
  else, so the backdrop is visible afterwards although the control is not allowed and no panel
  is opened.
\<close>

theorem onToggle_external_counterexample:
  "\<not> allowSidebarBackdropControl external_backdrop \<and>
   onToggle external_backdrop = Inr (external_backdrop\<lparr>timeouts := 1\<rparr>) \<and>
   showBackdrop (external_backdrop\<lparr>timeouts := 1\<rparr>) \<and>
   \<not> (\<exists>p \<in> set (panels_of (heap external_backdrop) (sidebars external_backdrop)).
        opened p \<and> sidebar_showBackdrop p)"
  by (simp add: onToggle_def external_backdrop_def fresh_def plain_panel_def)



text \<open>
  Claim C8 says that every operation that iterates over the tracked panels skips a null
  reference and completes. The style computation and the unsubscription test the reference
  (lines 136 and 237) and do so; the click on the backdrop and the arbitration of the backdrop
  read \<^verbatim>\<open>sidebar.opened\<close> without a test (lines 209 and 259) and throw a
  \<^verbatim>\<open>TypeError\<close> on an array that holds one null reference.
\<close>

theorem null_panel_throws:
  "onBackdropClicked close (fresh\<lparr>sidebars := [None]\<rparr>) = Inl TypeError \<and>
   onToggle (fresh\<lparr>sidebars := [None]\<rparr>) = Inl TypeError \<and>
   getContentStyles (fresh\<lparr>sidebars := [None]\<rparr>) = (no_styles, fresh\<lparr>sidebars := [None]\<rparr>) \<and>
   unsubscribe (fresh\<lparr>sidebars := [None]\<rparr>) = fresh\<lparr>sidebars := [None]\<rparr>"
  by (simp add: onBackdropClicked_def onToggle_def getContentStyles_def unsubscribe_def fresh_def
      no_styles_def init_locals_def px_def toString_0)

section \<open>The claim about a container without a rendering surface\<close>

text \<open>
  Claim C7 says that without a rendering surface every public entry point is a no-op, and that
  no style computation occurs. The three lifecycle hooks test the flag;
  \<^verbatim>\<open>_getContentStyles\<close> and \<^verbatim>\<open>_onBackdropClicked\<close> do not. As amended: when the flag
  is false, \<^verbatim>\<open>ngAfterContentInit\<close>, \<^verbatim>\<open>ngOnChanges\<close> and \<^verbatim>\<open>ngOnDestroy\<close> leave
  the state as it is, and after any sequence of events no panel is registered, the container
  has subscribed to nothing, no change event of the backdrop has been emitted, no timer is
  pending and no check has been requested: only the two inputs can have changed. The style
  computation still runs; as no panel is ever tracked, it returns the style of a container
  without panels, and a click on the backdrop closes nothing.
\<close>

theorem no_browser_no_effect:
  assumes "inert w"
  shows "ngAfterContentInit w = Inr w \<and> ngOnChanges changes w = w \<and> ngOnDestroy w = w \<and>
         (\<exists>w'. run close es w = Inr w' \<and> same_but_inputs w w' \<and>
            getContentStyles w' = (no_styles, w') \<and> onBackdropClicked close w' = Inr ([], w'))"
proof -
  from assms have nb: "\<not> isBrowser w" by (simp add: inert_def)
  from run_inert [OF assms, of close es] obtain w' where
    w': "run close es w = Inr w'" "same_but_inputs w w'" by blast
  from same_but_inputs_inert [OF w'(2) assms] have e: "sidebars w' = []" by (simp add: inert_def)
  from e have "getContentStyles w' = (no_styles, w')" by (rule getContentStyles_empty)
  moreover from e have "onBackdropClicked close w' = Inr ([], w')"
    by (simp add: onBackdropClicked_def)
  ultimately show ?thesis
    using nb w' by (auto simp: ngAfterContentInit_def ngOnChanges_def ngOnDestroy_def)
qed

theorem no_browser_no_effect_witness:
  "inert (fresh\<lparr>isBrowser := False\<rparr>) \<and>
   (\<exists>w'. run close_panel
       [AfterContentInit, SetShowBackdrop True, Changes (Some True), Register (Some 0),
        Emit 0 OnOpenStart, ContentStyles, BackdropClicked, Timeout, Destroy]
       (fresh\<lparr>isBrowser := False\<rparr>) = Inr w' \<and>
      sidebars w' = [] \<and> showBackdropChange w' = [] \<and> onRegister w' = 0 \<and>
      observers w' = (\<lambda>r s. []) \<and> getContentStyles w' = (no_styles, w'))"
proof -
  have i: "inert (fresh\<lparr>isBrowser := False\<rparr>)" by (simp add: inert_def fresh_def)
  have f: "sidebars (fresh\<lparr>isBrowser := False\<rparr>) = []"
    "showBackdropChange (fresh\<lparr>isBrowser := False\<rparr>) = []"
    "onRegister (fresh\<lparr>isBrowser := False\<rparr>) = 0"
    "observers (fresh\<lparr>isBrowser := False\<rparr>) = (\<lambda>r s. [])"
    by (simp_all add: fresh_def)
  from no_browser_no_effect [OF i, of None close_panel
      "[AfterContentInit, SetShowBackdrop True, Changes (Some True), Register (Some 0),
        Emit 0 OnOpenStart, ContentStyles, BackdropClicked, Timeout, Destroy]"]
  obtain w' where "run close_panel
       [AfterContentInit, SetShowBackdrop True, Changes (Some True), Register (Some 0),
        Emit 0 OnOpenStart, ContentStyles, BackdropClicked, Timeout, Destroy]
       (fresh\<lparr>isBrowser := False\<rparr>) = Inr w'"
    and "same_but_inputs (fresh\<lparr>isBrowser := False\<rparr>) w'"
    and "getContentStyles w' = (no_styles, w')" by blast
  with f i show ?thesis by (auto simp: same_but_inputs_def)
qed

text \<open>
  The claim as stated fails: with the flag false \<^verbatim>\<open>_getContentStyles\<close> computes and
  returns a style, and it does not read the flag, so that the style of a state that holds an
  opened push panel at the left, 200 pixels wide, has a left padding of 200 pixels whatever the
  flag is.
\<close>

theorem no_browser_styles_counterexample:
  "\<not> isBrowser (fresh\<lparr>isBrowser := False\<rparr>) \<and>
   fst (getContentStyles (fresh\<lparr>isBrowser := False\<rparr>)) = no_styles \<and>
   \<not> isBrowser ((one_panel (push_panel ''left'' 200 0))\<lparr>isBrowser := False\<rparr>) \<and>
   fst (getContentStyles ((one_panel (push_panel ''left'' 200 0))\<lparr>isBrowser := False\<rparr>)) =
     no_styles\<lparr>padding := ''0px 0px 0px 200px''\<rparr>"
  by (simp add: getContentStyles_def one_panel_def fresh_def push_panel_def plain_panel_def
      no_styles_def visit_def Let_def slide_step_def override_step_def switch_position_def
      init_locals_def paddingAmt_def isLeftOrRight_def px_def toString_0 toString_200)

end
